theory Spec2Isabelle
  imports Main "HOL-Library.Char_ord" "HOL-Library.List_Lexorder" "HOL-Library.AList"
begin

section \<open>Python values, dictionaries and exceptions\<close>

text \<open>
  The connectors handle JSON-like Python values. Numbers are modelled as integers
  (Python's unbounded \<open>int\<close>); floating point values are outside the model. A \<open>dict\<close>
  is an association list in insertion order: \<open>map_of\<close> is subscripting,
  \<open>AList.update\<close> is \<open>d[k] = v\<close> (an existing key keeps its place, a new key goes last).
\<close>

datatype pyval =
    PNone
  | PBool bool
  | PInt int
  | PStr string
  | PList "pyval list"
  | PDict "(string \<times> pyval) list"

type_synonym pydict = "(string \<times> pyval) list"

text \<open>Python truthiness, as used by \<open>if x:\<close>, \<open>x or y\<close> and \<open>x and y\<close>.\<close>

fun truthy :: "pyval \<Rightarrow> bool" where
  "truthy PNone = False"
| "truthy (PBool b) = b"
| "truthy (PInt n) = (n \<noteq> 0)"
| "truthy (PStr s) = (s \<noteq> [])"
| "truthy (PList xs) = (xs \<noteq> [])"
| "truthy (PDict kvs) = (kvs \<noteq> [])"

text \<open>\<open>d.get(k)\<close>: the value, or \<open>None\<close> for a missing key.\<close>

definition dict_get :: "pydict \<Rightarrow> string \<Rightarrow> pyval" where
  "dict_get d k = (case map_of d k of None \<Rightarrow> PNone | Some v \<Rightarrow> v)"

text \<open>\<open>a or b\<close> on values.\<close>

definition py_or :: "pyval \<Rightarrow> pyval \<Rightarrow> pyval" where
  "py_or a b = (if truthy a then a else b)"

text \<open>
  \<open>FacebookRequestError\<close> of the Facebook SDK, with the accessors the connector reads.
\<close>

record fb_error =
  api_error_code :: "int option"
  api_error_subcode :: "int option"
  api_error_message :: string

datatype exn =
    FacebookRequestError fb_error
  | KeyError
  | IndexError
  | TypeError
  | ValueError
  | OverflowError
  | AttributeError
  | JSONDecodeError
  | ParserError
  | OtherError string

section \<open>Instagram: the per-account cursor state\<close>

text \<open>
  \<open>InstagramIncrementalStream._state\<close> maps an account id (the value of the record's
  \<open>cursor_field\<close>) to a pendulum \<open>DateTime\<close>. An instant is modelled as an integer
  (its position on the time line), which carries the total order the code compares with.
  \<open>pendulum.parse\<close> is the library's parser and is a parameter: \<open>None\<close> stands for
  the \<open>ParserError\<close> it raises; on a value that is not a string it raises \<open>TypeError\<close>.
\<close>

type_synonym instant = int

type_synonym account_state = "pyval \<rightharpoonup> instant"

definition pendulum_parse :: "(string \<Rightarrow> instant option) \<Rightarrow> pyval \<Rightarrow> exn + instant" where
  "pendulum_parse parse v =
     (case v of
        PStr s \<Rightarrow> (case parse s of None \<Rightarrow> Inl ParserError | Some t \<Rightarrow> Inr t)
      | _ \<Rightarrow> Inl TypeError)"

text \<open>
  \<open>state_filter\<close> (the same body in \<open>streams.py\<close> and \<open>client/api.py\<close>). The result is
  the returned value (\<open>None\<close> when the record is dropped) with the state after the call;
  the log line has no effect on either.
\<close>

definition state_filter ::
  "(string \<Rightarrow> instant option) \<Rightarrow> string \<Rightarrow> string \<Rightarrow> account_state \<Rightarrow> pydict
     \<Rightarrow> exn + (pydict option \<times> account_state)" where
  "state_filter parse state_pk cursor_field st record =
     (case map_of record state_pk of
        None \<Rightarrow> Inl KeyError
      | Some d \<Rightarrow>
          (case pendulum_parse parse d of
             Inl e \<Rightarrow> Inl e
           | Inr cursor \<Rightarrow>
               (case map_of record cursor_field of
                  None \<Rightarrow> Inl KeyError
                | Some acct \<Rightarrow>
                    (case st acct of
                       None \<Rightarrow> Inl KeyError
                     | Some w \<Rightarrow>
                         if w \<ge> cursor then Inr (None, st)
                         else Inr (Some record, st(acct \<mapsto> max cursor w))))))"

section \<open>Square: stream state and request parameters\<close>

text \<open>
  Comparison of Python values. A \<open>bool\<close> is an \<open>int\<close> (\<open>True\<close> is 1), so the two compare
  as numbers; strings compare lexicographically by character; lists compare by their
  first pair of unequal items, or by length when there is none; \<open>None\<close>, mappings and
  values of different kinds have no order and \<open><\<close> on them raises \<open>TypeError\<close>. Equality
  never raises: mappings are equal when they have the same keys with equal values.
\<close>

fun py_num :: "pyval \<Rightarrow> int option" where
  "py_num (PInt n) = Some n"
| "py_num (PBool b) = Some (if b then 1 else 0)"
| "py_num _ = None"

fun py_eq :: "pyval \<Rightarrow> pyval \<Rightarrow> bool"
  and py_eq_list :: "pyval list \<Rightarrow> pyval list \<Rightarrow> bool"
  and py_eq_items :: "(string \<times> pyval) list \<Rightarrow> (string \<times> pyval) list \<Rightarrow> bool" where
  "py_eq (PList xs) (PList ys) = py_eq_list xs ys"
| "py_eq (PDict d) (PDict e) = (length d = length e \<and> py_eq_items d e)"
| "py_eq (PStr a) (PStr b) = (a = b)"
| "py_eq PNone PNone = True"
| "py_eq a b = (case (py_num a, py_num b) of (Some m, Some n) \<Rightarrow> m = n | _ \<Rightarrow> False)"
| "py_eq_list [] [] = True"
| "py_eq_list (x # xs) (y # ys) = (py_eq x y \<and> py_eq_list xs ys)"
| "py_eq_list _ _ = False"
| "py_eq_items [] e = True"
| "py_eq_items ((k, v) # d) e =
     ((case map_of e k of None \<Rightarrow> False | Some w \<Rightarrow> py_eq v w) \<and> py_eq_items d e)"

fun py_lt :: "pyval \<Rightarrow> pyval \<Rightarrow> exn + bool"
  and py_lt_list :: "pyval list \<Rightarrow> pyval list \<Rightarrow> exn + bool" where
  "py_lt (PStr a) (PStr b) = Inr (a < b)"
| "py_lt (PList xs) (PList ys) = py_lt_list xs ys"
| "py_lt a b =
     (case (py_num a, py_num b) of (Some m, Some n) \<Rightarrow> Inr (m < n) | _ \<Rightarrow> Inl TypeError)"
| "py_lt_list [] [] = Inr False"
| "py_lt_list [] (y # ys) = Inr True"
| "py_lt_list (x # xs) [] = Inr False"
| "py_lt_list (x # xs) (y # ys) = (if py_eq x y then py_lt_list xs ys else py_lt x y)"

text \<open>
  \<open>max(a, b)\<close> of Python: \<open>b\<close> is returned only when it is strictly greater than \<open>a\<close>,
  and the comparison may raise.
\<close>

definition py_max :: "pyval \<Rightarrow> pyval \<Rightarrow> exn + pyval" where
  "py_max a b = (case py_lt a b of Inl e \<Rightarrow> Inl e | Inr lt \<Rightarrow> Inr (if lt then b else a))"

text \<open>
  \<open>IncrementalSquareGenericStream.get_updated_state\<close>. The stream's \<open>cursor_field\<close>
  and \<open>start_date\<close> attributes are arguments; \<open>current_stream_state\<close> may be \<open>None\<close>.
\<close>

definition get_updated_state ::
  "string \<Rightarrow> string \<Rightarrow> pydict option \<Rightarrow> pydict \<Rightarrow> exn + pydict" where
  "get_updated_state cursor_field start_date current_stream_state latest_record =
     (case current_stream_state of
        None \<Rightarrow> Inr [(cursor_field, PStr start_date)]
      | Some cur \<Rightarrow>
          (case map_of cur cursor_field of
             None \<Rightarrow> Inr [(cursor_field, PStr start_date)]
           | Some old \<Rightarrow>
               (case map_of latest_record cursor_field of
                  None \<Rightarrow> Inl KeyError
                | Some new \<Rightarrow>
                    (case py_max old new of
                       Inl e \<Rightarrow> Inl e
                     | Inr m \<Rightarrow> Inr [(cursor_field, m)]))))"

text \<open>
  \<open>IncrementalSquareStream.request_params\<close>. \<open>super().request_params(...)\<close> is the
  framework's \<open>HttpStream\<close> and is the argument \<open>super_params\<close>; \<open>cursor_field\<close> is
  \<open>"created_at"\<close> and \<open>items_per_page_limit\<close> is 100 in this class. The returned value
  is \<open>None\<close> or a mapping: \<open>dict.update\<close> returns \<open>None\<close>, and the source returns that
  value when the page token is truthy.
\<close>

definition IncrementalSquareStream_cursor_field :: string where
  "IncrementalSquareStream_cursor_field = ''created_at''"

definition items_per_page_limit :: int where
  "items_per_page_limit = 100"

definition request_params ::
  "pydict option \<Rightarrow> pydict \<Rightarrow> pydict option \<Rightarrow> exn + pydict option" where
  "request_params super_params stream_state next_page_token =
     (let params_payload =
            (case super_params of None \<Rightarrow> [] | Some p \<Rightarrow> if p \<noteq> [] then p else []);
          params_payload =
            (case map_of stream_state IncrementalSquareStream_cursor_field of
               None \<Rightarrow> params_payload
             | Some v \<Rightarrow> AList.update ''begin_time'' v params_payload);
          truthy_token = (case next_page_token of None \<Rightarrow> False | Some tok \<Rightarrow> tok \<noteq> [])
      in if truthy_token
         then (case map_of (case next_page_token of None \<Rightarrow> [] | Some tok \<Rightarrow> tok) ''cursor'' of
                 None \<Rightarrow> Inl KeyError
               | Some c \<Rightarrow> Inr None)
         else Inr (Some (AList.update ''limit'' (PInt items_per_page_limit) params_payload)))"

text \<open>
  \<open>SquareStream.next_page_token\<close>, the only producer of the page token that the framework
  passes to \<open>request_params\<close>. Its argument is the decoded body \<open>response.json()\<close>; on a
  body that is not an object the lookup of \<open>get\<close> raises \<open>AttributeError\<close>. The function
  ends without a \<open>return\<close>, that is with \<open>None\<close>, when the cursor is missing or falsy.
\<close>

definition SquareStream_next_page_token :: "pyval \<Rightarrow> exn + pydict option" where
  "SquareStream_next_page_token response_json =
     (case response_json of
        PDict body \<Rightarrow>
          (let next_page_cursor =
                 (case map_of body ''cursor'' of None \<Rightarrow> PBool False | Some v \<Rightarrow> v)
           in if truthy next_page_cursor then Inr (Some [(''cursor'', next_page_cursor)])
              else Inr None)
      | _ \<Rightarrow> Inl AttributeError)"

section \<open>Instagram: the retry policy\<close>

text \<open>
  Modelled from the spec: \<open>retry_pattern\<close> (\<open>source_instagram/common.py\<close>) is missing
  from the sources; only its use
  \<open>backoff_policy = retry_pattern(backoff.expo, FacebookRequestError, max_tries=7, factor=5)\<close>
  is there. Following section 4.2 of the specification, the policy calls the wrapped
  operation; a failure whose error is of the retryable type is retried until the
  operation has been attempted \<open>max_tries\<close> times, after which the last error is raised;
  any other error is raised at once. The operation is given by the outcome of each of
  its successive invocations (\<open>operation n\<close> is the outcome of invocation number \<open>n\<close>,
  counting from 0); the result is the outcome of the policy with the number of
  invocations made.
\<close>

function retry_from ::
  "nat \<Rightarrow> (exn \<Rightarrow> bool) \<Rightarrow> (nat \<Rightarrow> exn + 'a) \<Rightarrow> nat \<Rightarrow> (exn + 'a) \<times> nat" where
  "retry_from max_tries retryable operation n =
     (case operation n of
        Inr v \<Rightarrow> (Inr v, Suc n)
      | Inl e \<Rightarrow>
          if retryable e \<and> Suc n < max_tries
          then retry_from max_tries retryable operation (Suc n)
          else (Inl e, Suc n))"
  by pat_completeness auto
termination
  by (relation "measure (\<lambda>(max_tries, retryable, operation, n). max_tries - n)") auto

text \<open>The error type the policy is built with: \<open>FacebookRequestError\<close>.\<close>

fun is_FacebookRequestError :: "exn \<Rightarrow> bool" where
  "is_FacebookRequestError (FacebookRequestError _) = True"
| "is_FacebookRequestError _ = False"

definition max_tries :: nat where
  "max_tries = 7"

definition backoff_policy :: "(nat \<Rightarrow> exn + 'a) \<Rightarrow> (exn + 'a) \<times> nat" where
  "backoff_policy operation = retry_from max_tries is_FacebookRequestError operation 0"

section \<open>Instagram: pagination over the SDK cursor\<close>

text \<open>
  The SDK's \<open>Cursor\<close> is read through \<open>_queue\<close> (the buffer of the page loaded last) and
  \<open>_finished_iteration\<close>, and advanced by \<open>load_next_page\<close>. The provider is given by the
  successive states of the cursor: \<open>provider 0\<close> is what \<open>get_instance_cursor\<close> returns,
  \<open>provider (Suc n)\<close> what the cursor holds after the next \<open>load_next_page\<close>; either call
  may raise (after the retry policy gave up). \<open>pagination\<close> is a generator: the model
  returns the items yielded, the number of \<open>load_next_page\<close> calls made, and the error
  that ended the iteration if there was one. The loop ends only when the provider sets
  the flag, so the result is an option: \<open>None\<close> is a loop that never ends.
\<close>

type_synonym 'a cursor_page = "'a list \<times> bool"

partial_function (option) pagination_loop ::
  "(nat \<Rightarrow> exn + 'a cursor_page) \<Rightarrow> nat \<Rightarrow> 'a list \<Rightarrow> ('a list \<times> nat \<times> exn option) option" where
  "pagination_loop provider n yielded =
     (case provider (Suc n) of
        Inl e \<Rightarrow> Some (yielded, Suc n, Some e)
      | Inr page \<Rightarrow>
          if snd page then Some (yielded @ fst page, Suc n, None)
          else pagination_loop provider (Suc n) (yielded @ fst page))"

definition pagination ::
  "(nat \<Rightarrow> exn + 'a cursor_page) \<Rightarrow> ('a list \<times> nat \<times> exn option) option" where
  "pagination provider =
     (case provider 0 of
        Inl e \<Rightarrow> Some ([], 0, Some e)
      | Inr page \<Rightarrow>
          if snd page then Some (fst page, 0, None)
          else pagination_loop provider 0 (fst page))"

section \<open>Instagram: the call rate headers\<close>

text \<open>
  A header value is text. \<open>json.loads\<close> is the standard library's: the model keeps of a
  header's text what \<open>json.loads\<close> makes of it, \<open>JsonText v\<close> for a text that decodes to
  the value \<open>v\<close> and \<open>NotJson s\<close> for a text \<open>s\<close> that it rejects by raising
  \<open>JSONDecodeError\<close>. The empty text, the only falsy one, is \<open>NotJson []\<close>.
\<close>

datatype header_value = NotJson string | JsonText pyval

type_synonym headers = "(string \<times> header_value) list"

definition json_loads :: "header_value \<Rightarrow> exn + pyval" where
  "json_loads h = (case h of NotJson s \<Rightarrow> Inl JSONDecodeError | JsonText v \<Rightarrow> Inr v)"

definition truthy_header :: "header_value option \<Rightarrow> bool" where
  "truthy_header h = (case h of None \<Rightarrow> False | Some v \<Rightarrow> v \<noteq> NotJson [])"

text \<open>\<open>headers.get(a) or headers.get(b) or headers.get(c)\<close>.\<close>

definition usage_header_of :: "headers \<Rightarrow> header_value option" where
  "usage_header_of hs =
     (if truthy_header (map_of hs ''x-business-use-case-usage'')
      then map_of hs ''x-business-use-case-usage''
      else if truthy_header (map_of hs ''x-app-usage'')
      then map_of hs ''x-app-usage''
      else map_of hs ''x-ad-account-usage'')"

text \<open>
  \<open>pendulum.duration(minutes=v)\<close>, in seconds: a number of minutes (a \<open>bool\<close> is an
  \<open>int\<close> in Python); any other value raises \<open>TypeError\<close>. A duration is a \<open>timedelta\<close>,
  whose whole days must lie between -999999999 and 999999999: beyond them the
  constructor raises \<open>OverflowError\<close>.
\<close>

fun duration_minutes :: "pyval \<Rightarrow> exn + int" where
  "duration_minutes (PInt n) =
     (if (60 * n) div 86400 < - 999999999 \<or> 999999999 < (60 * n) div 86400
      then Inl OverflowError
      else Inr (60 * n))"
| "duration_minutes (PBool b) = Inr (if b then 60 else 0)"
| "duration_minutes _ = Inl TypeError"

text \<open>
  \<open>MyFacebookAdsApi.parse_call_rate_header\<close>: the call count and the pause interval (in
  seconds). \<open>usage_header.get\<close> exists on a decoded object only; on any other decoded
  value the attribute lookup raises \<open>AttributeError\<close>.
\<close>

definition parse_call_rate_header :: "headers \<Rightarrow> exn + (pyval \<times> int)" where
  "parse_call_rate_header hs =
     (let usage_header = usage_header_of hs in
      if truthy_header usage_header
      then (case usage_header of
              None \<Rightarrow> Inr (PInt 0, 0)
            | Some h \<Rightarrow>
                (case json_loads h of
                   Inl e \<Rightarrow> Inl e
                 | Inr (PDict d) \<Rightarrow>
                     (let call_count =
                            py_or (py_or (dict_get d ''call_count'') (dict_get d ''acc_id_util_pct''))
                              (PInt 0)
                      in case duration_minutes
                              (case map_of d ''estimated_time_to_regain_access'' of
                                 None \<Rightarrow> PInt 0 | Some v \<Rightarrow> v) of
                           Inl e \<Rightarrow> Inl e
                         | Inr pause_interval \<Rightarrow> Inr (call_count, pause_interval))
                 | Inr _ \<Rightarrow> Inl AttributeError))
      else Inr (PInt 0, 0))"

text \<open>\<open>call_count > self.call_rate_threshold\<close>, with the threshold 90.\<close>

definition call_rate_threshold :: int where
  "call_rate_threshold = 90"

fun exceeds_threshold :: "pyval \<Rightarrow> exn + bool" where
  "exceeds_threshold (PInt n) = Inr (n > call_rate_threshold)"
| "exceeds_threshold (PBool b) = Inr ((if b then 1 else 0) > call_rate_threshold)"
| "exceeds_threshold _ = Inl TypeError"

text \<open>
  \<open>MyFacebookAdsApi.handle_call_rate_limit\<close>: the result is the length in seconds that
  \<open>sleep\<close> is called with, \<open>None\<close> when \<open>sleep\<close> is not called. \<open>sleep\<close> converts the
  length to a signed 64-bit count of nanoseconds and raises \<open>OverflowError\<close> when it does
  not fit, then raises \<open>ValueError\<close> on a negative length. What the operating system
  does with a length of centuries is outside the model.
\<close>

definition handle_call_rate_limit :: "headers \<Rightarrow> exn + int option" where
  "handle_call_rate_limit hs =
     (case parse_call_rate_header hs of
        Inl e \<Rightarrow> Inl e
      | Inr (call_count, pause_interval) \<Rightarrow>
          (case exceeds_threshold call_count of
             Inl e \<Rightarrow> Inl e
           | Inr over \<Rightarrow>
               if over \<or> pause_interval \<noteq> 0
               then (if pause_interval < - 9223372036 \<or> 9223372036 < pause_interval
                     then Inl OverflowError
                     else if pause_interval < 0 then Inl ValueError
                     else Inr (Some pause_interval))
               else Inr None))"

section \<open>Instagram: shaping of records\<close>

subsection \<open>User insights\<close>

text \<open>
  An insight entry of the SDK: its name, its period when it has one, and its list of
  values, each with a \<open>value\<close> and an \<open>end_time\<close>.
\<close>

record insight_value =
  iv_value :: pyval
  iv_end_time :: pyval

record insight =
  i_name :: string
  i_period :: "string option"
  i_values :: "insight_value list"

text \<open>The key of an entry in the merged record (\<open>UserInsights.list\<close>).\<close>

definition insight_key :: "insight \<Rightarrow> string" where
  "insight_key i =
     (case i_period i of
        None \<Rightarrow> i_name i
      | Some p \<Rightarrow> if p \<in> set [''week'', ''days_28''] then i_name i @ ''_'' @ p else i_name i)"

text \<open>
  One turn of the loop over \<open>insight_list\<close>; \<open>insight.get("values")[0]\<close> raises
  \<open>IndexError\<close> on an empty list of values.
\<close>

definition add_insight :: "pydict \<Rightarrow> insight \<Rightarrow> exn + pydict" where
  "add_insight insight_record i =
     (case i_values i of
        [] \<Rightarrow> Inl IndexError
      | v # _ \<Rightarrow>
          (let r = AList.update (insight_key i) (iv_value v) insight_record
           in Inr (if \<not> truthy (dict_get r ''date'')
                   then AList.update ''date'' (iv_end_time v) r
                   else r)))"

fun add_insights :: "pydict \<Rightarrow> insight list \<Rightarrow> exn + pydict" where
  "add_insights insight_record [] = Inr insight_record"
| "add_insights insight_record (i # is) =
     (case add_insight insight_record i of
        Inl e \<Rightarrow> Inl e
      | Inr r \<Rightarrow> add_insights r is)"

text \<open>The record built for one day from a non-empty \<open>insight_list\<close>.\<close>

definition insight_record_of :: "pyval \<Rightarrow> pyval \<Rightarrow> insight list \<Rightarrow> exn + pydict" where
  "insight_record_of page_id account_id insight_list =
     add_insights [(''page_id'', page_id), (''business_account_id'', account_id)] insight_list"

subsection \<open>Removing volatile query parameters\<close>

text \<open>\<open>s.split(c)\<close> and \<open>c.join(xs)\<close> for a separator of one character.\<close>

fun split_on :: "char \<Rightarrow> string \<Rightarrow> string list" where
  "split_on c [] = [[]]"
| "split_on c (x # xs) =
     (if x = c then [] # split_on c xs
      else (case split_on c xs of
              [] \<Rightarrow> [[x]]
            | w # ws \<Rightarrow> (x # w) # ws))"

fun join :: "char \<Rightarrow> string list \<Rightarrow> string" where
  "join c [] = []"
| "join c [x] = x"
| "join c (x # y # ys) = x @ c # join c (y # ys)"

text \<open>
  \<open>urllib.parse\<close> is the standard library's; the model follows its text in Python
  3.11 on \<open>str\<close> input. A parsed URL has six parts.
\<close>

record parse_result =
  u_scheme :: string
  u_netloc :: string
  u_path :: string
  u_params :: string
  u_query :: string
  u_fragment :: string

text \<open>
  The constants of the module: the characters stripped from the front of a URL (the C0
  controls and the space), those removed anywhere (tab, carriage return, line feed),
  the characters of a scheme, and the schemes that take a network location or
  parameters.
\<close>

definition WHATWG_C0_CONTROL_OR_SPACE :: "char \<Rightarrow> bool" where
  "WHATWG_C0_CONTROL_OR_SPACE c = ((of_char c :: nat) \<le> 32)"

definition UNSAFE_URL_BYTES_TO_REMOVE :: "char list" where
  "UNSAFE_URL_BYTES_TO_REMOVE = [CHR 0x09, CHR 0x0D, CHR 0x0A]"

definition scheme_chars :: string where
  "scheme_chars = ''abcdefghijklmnopqrstuvwxyzABCDEFGHIJKLMNOPQRSTUVWXYZ0123456789+-.''"

definition uses_netloc :: "string list" where
  "uses_netloc = ['''', ''ftp'', ''http'', ''gopher'', ''nntp'', ''telnet'',
                  ''imap'', ''wais'', ''file'', ''mms'', ''https'', ''shttp'',
                  ''snews'', ''prospero'', ''rtsp'', ''rtsps'', ''rtspu'', ''rsync'',
                  ''svn'', ''svn+ssh'', ''sftp'', ''nfs'', ''git'', ''git+ssh'',
                  ''ws'', ''wss'']"

definition uses_params :: "string list" where
  "uses_params = ['''', ''ftp'', ''hdl'', ''prospero'', ''http'', ''imap'',
                  ''https'', ''shttp'', ''rtsp'', ''rtsps'', ''rtspu'', ''sip'',
                  ''sips'', ''mms'', ''sftp'', ''tel'']"

text \<open>
  \<open>c.isascii() and c.isalpha()\<close>, and \<open>str.lower\<close> on the characters of a scheme.
\<close>

definition is_ascii_alpha :: "char \<Rightarrow> bool" where
  "is_ascii_alpha c = (c \<in> set ''abcdefghijklmnopqrstuvwxyzABCDEFGHIJKLMNOPQRSTUVWXYZ'')"

definition ascii_lower :: "char \<Rightarrow> char" where
  "ascii_lower c =
     (case map_of (zip ''ABCDEFGHIJKLMNOPQRSTUVWXYZ'' ''abcdefghijklmnopqrstuvwxyz'') c of
        None \<Rightarrow> c
      | Some l \<Rightarrow> l)"

text \<open>
  The scheme of \<open>urlsplit\<close>: the text before the first colon, when it is not empty,
  starts with a letter and has scheme characters only; it is lower-cased.
\<close>

definition split_scheme :: "string \<Rightarrow> string \<times> string" where
  "split_scheme url =
     (case takeWhile (\<lambda>c. c \<noteq> CHR '':'') url of
        [] \<Rightarrow> ([], url)
      | c # cs \<Rightarrow>
          if CHR '':'' \<in> set url \<and> is_ascii_alpha c \<and> list_all (\<lambda>x. x \<in> set scheme_chars) (c # cs)
          then (map ascii_lower (c # cs), drop (Suc (length (c # cs))) url)
          else ([], url))"

text \<open>
  \<open>_splitnetloc(url, 2)\<close>: the network location runs from after \<open>//\<close> to the first of
  \<open>/\<close>, \<open>?\<close> and \<open>#\<close>.
\<close>

definition splitnetloc :: "string \<Rightarrow> string \<times> string" where
  "splitnetloc url =
     (takeWhile (\<lambda>c. c \<notin> set ''/?#'') (drop 2 url),
      dropWhile (\<lambda>c. c \<notin> set ''/?#'') (drop 2 url))"

text \<open>
  The checks of \<open>urlsplit\<close> on the network location, each raising \<open>ValueError\<close>. One
  bracket without the other is refused. Two checks rest on other modules: a host in
  brackets must be an address that \<open>ipaddress\<close> accepts, and a location that is not
  ASCII is normalised by \<open>unicodedata\<close>. They are the argument \<open>netloc_ok\<close>, which says
  of a location with both brackets or with a character outside ASCII that neither
  raises.
\<close>

definition is_ascii :: "string \<Rightarrow> bool" where
  "is_ascii s = list_all (\<lambda>c. (of_char c :: nat) < 128) s"

definition check_netloc :: "(string \<Rightarrow> bool) \<Rightarrow> string \<Rightarrow> bool" where
  "check_netloc netloc_ok netloc =
     (if (CHR ''['' \<in> set netloc \<and> CHR '']'' \<notin> set netloc)
         \<or> (CHR '']'' \<in> set netloc \<and> CHR ''['' \<notin> set netloc)
      then False
      else if (CHR ''['' \<in> set netloc \<and> CHR '']'' \<in> set netloc) \<or> \<not> is_ascii netloc
      then netloc_ok netloc
      else True)"

text \<open>
  \<open>s.split(c, 1)\<close> into the text before the first \<open>c\<close> and the text after it (empty
  when there is no \<open>c\<close>).
\<close>

definition cut_at :: "char \<Rightarrow> string \<Rightarrow> string \<times> string" where
  "cut_at c s = (takeWhile (\<lambda>x. x \<noteq> c) s, drop (Suc (length (takeWhile (\<lambda>x. x \<noteq> c) s))) s)"

text \<open>
  \<open>urlsplit\<close>: scheme, network location, path, query and fragment.
\<close>

definition urlsplit :: "(string \<Rightarrow> bool) \<Rightarrow> string \<Rightarrow> exn + (string \<times> string \<times> string \<times> string \<times> string)" where
  "urlsplit netloc_ok url0 =
     (let url = filter (\<lambda>c. c \<notin> set UNSAFE_URL_BYTES_TO_REMOVE)
                  (dropWhile WHATWG_C0_CONTROL_OR_SPACE url0);
          (scheme, url) = split_scheme url;
          (netloc, url) = (if take 2 url = ''//'' then splitnetloc url else ([], url));
          (url, fragment) = cut_at CHR ''#'' url;
          (url, query) = cut_at CHR ''?'' url
      in if check_netloc netloc_ok netloc then Inr (scheme, netloc, url, query, fragment)
         else Inl ValueError)"

text \<open>
  \<open>_splitparams\<close> and \<open>urlparse\<close>: the parameters are what follows the first \<open>;\<close> of
  the last path segment.
\<close>

definition splitparams :: "string \<Rightarrow> string \<times> string" where
  "splitparams url =
     (if CHR ''/'' \<in> set url
      then (let last_segment = rev (takeWhile (\<lambda>c. c \<noteq> CHR ''/'') (rev url));
                upto_slash = take (length url - length last_segment) url
            in if CHR '';'' \<in> set last_segment
               then (upto_slash @ fst (cut_at CHR '';'' last_segment), snd (cut_at CHR '';'' last_segment))
               else (url, []))
      else cut_at CHR '';'' url)"

definition urlparse :: "(string \<Rightarrow> bool) \<Rightarrow> string \<Rightarrow> exn + parse_result" where
  "urlparse netloc_ok url0 =
     (case urlsplit netloc_ok url0 of
        Inl e \<Rightarrow> Inl e
      | Inr (scheme, netloc, url, query, fragment) \<Rightarrow>
          (let (url, params) =
                 (if scheme \<in> set uses_params \<and> CHR '';'' \<in> set url then splitparams url
                  else (url, []))
           in Inr \<lparr>u_scheme = scheme, u_netloc = netloc, u_path = url, u_params = params,
                    u_query = query, u_fragment = fragment\<rparr>))"

text \<open>
  \<open>urlunsplit\<close> and \<open>urlunparse\<close>: a delimiter is put back only before a part that is
  not empty.
\<close>

definition urlunsplit :: "string \<times> string \<times> string \<times> string \<times> string \<Rightarrow> string" where
  "urlunsplit components =
     (case components of (scheme, netloc, url, query, fragment) \<Rightarrow>
        (let url = (if netloc \<noteq> [] \<or> (scheme \<noteq> [] \<and> scheme \<in> set uses_netloc)
                          \<or> take 2 url = ''//''
                    then ''//'' @ netloc @ (if url \<noteq> [] \<and> take 1 url \<noteq> ''/'' then ''/'' @ url else url)
                    else url);
             url = (if scheme \<noteq> [] then scheme @ '':'' @ url else url);
             url = (if query \<noteq> [] then url @ ''?'' @ query else url);
             url = (if fragment \<noteq> [] then url @ ''#'' @ fragment else url)
         in url))"

definition urlunparse :: "parse_result \<Rightarrow> string" where
  "urlunparse p =
     urlunsplit (u_scheme p, u_netloc p,
                 (if u_params p \<noteq> [] then u_path p @ '';'' @ u_params p else u_path p),
                 u_query p, u_fragment p)"

text \<open>
  The loop of \<open>clear_query_params\<close>: \<open>key, value = q.split("=")\<close> raises \<open>ValueError\<close>
  unless the split has exactly two parts.
\<close>

fun clear_query_loop :: "string list \<Rightarrow> string list \<Rightarrow> exn + string list" where
  "clear_query_loop res_query [] = Inr res_query"
| "clear_query_loop res_query (q # qs) =
     (case split_on CHR ''='' q of
        [key, val] \<Rightarrow>
          clear_query_loop
            (if key \<notin> set [''_nc_rid'', ''ccb''] then res_query @ [key @ ''='' @ val] else res_query)
            qs
      | _ \<Rightarrow> Inl ValueError)"

text \<open>\<open>clear_query_params\<close>, the function nested in \<open>clear_url\<close>.\<close>

definition clear_query_params :: "(string \<Rightarrow> bool) \<Rightarrow> string \<Rightarrow> exn + string" where
  "clear_query_params netloc_ok url =
     (case urlparse netloc_ok url of
        Inl e \<Rightarrow> Inl e
      | Inr parsed_url \<Rightarrow>
          (case clear_query_loop [] (split_on CHR ''&'' (u_query parsed_url)) of
             Inl e \<Rightarrow> Inl e
           | Inr res_query \<Rightarrow>
               Inr (urlunparse (parsed_url\<lparr>u_query := join CHR ''&'' res_query\<rparr>))))"

text \<open>
  \<open>clear_url\<close> of \<open>client/api.py\<close>. A URL field that is truthy but not a string makes
  \<open>urlparse\<close> raise (it looks up \<open>decode\<close> on the value): \<open>AttributeError\<close>.
\<close>

definition clear_field :: "(string \<Rightarrow> bool) \<Rightarrow> string \<Rightarrow> pydict \<Rightarrow> exn + pydict" where
  "clear_field netloc_ok k record_data =
     (case map_of record_data k of
        Some (PStr url) \<Rightarrow>
          (case clear_query_params netloc_ok url of
             Inl e \<Rightarrow> Inl e
           | Inr u \<Rightarrow> Inr (AList.update k (PStr u) record_data))
      | _ \<Rightarrow> Inl AttributeError)"

definition clear_url :: "(string \<Rightarrow> bool) \<Rightarrow> pydict \<Rightarrow> exn + pydict" where
  "clear_url netloc_ok record_data =
     (if dict_get record_data ''media_type'' = PStr ''VIDEO''
         \<and> truthy (dict_get record_data ''media_url'')
      then clear_field netloc_ok ''media_url'' record_data
      else if truthy (dict_get record_data ''profile_picture_url'')
      then clear_field netloc_ok ''profile_picture_url'' record_data
      else Inr record_data)"

subsection \<open>Media and story insights\<close>

definition MEDIA_METRICS :: "string list" where
  "MEDIA_METRICS = [''engagement'', ''impressions'', ''reach'', ''saved'']"

definition CAROUSEL_ALBUM_METRICS :: "string list" where
  "CAROUSEL_ALBUM_METRICS =
     [''carousel_album_engagement'', ''carousel_album_impressions'',
      ''carousel_album_reach'', ''carousel_album_saved'']"

definition STORY_METRICS :: "string list" where
  "STORY_METRICS = [''exits'', ''impressions'', ''reach'', ''replies'', ''taps_forward'', ''taps_back'']"

text \<open>
  \<open>item.get_insights(params={"metric": metrics})\<close> is the SDK's call: the argument
  \<open>get_insights\<close> gives its outcome for an item and the metrics asked for. The body of
  \<open>_get_insights\<close> returns the list of metric lists it has requested, in order, with its
  own outcome. The \<open>backoff_policy\<close> decorator is applied around this body.
\<close>

definition MediaInsights_get_insights ::
  "(pydict \<Rightarrow> string list \<Rightarrow> exn + 'r) \<Rightarrow> pydict \<Rightarrow> string list list \<times> (exn + 'r option)" where
  "MediaInsights_get_insights get_insights item =
     (let metrics =
            (if dict_get item ''media_type'' = PStr ''VIDEO'' then MEDIA_METRICS @ [''video_views'']
             else if dict_get item ''media_type'' = PStr ''CAROUSEL_ALBUM'' then CAROUSEL_ALBUM_METRICS
             else MEDIA_METRICS)
      in ([metrics],
          (case get_insights item metrics of
             Inr r \<Rightarrow> Inr (Some r)
           | Inl (FacebookRequestError error) \<Rightarrow>
               if api_error_subcode error = Some 2108006 then Inr None
               else Inl (FacebookRequestError error)
           | Inl other \<Rightarrow> Inl other)))"

definition StoriesInsights_get_insights ::
  "(pydict \<Rightarrow> string list \<Rightarrow> exn + 'r list) \<Rightarrow> pydict \<Rightarrow> string list list \<times> (exn + 'r list)" where
  "StoriesInsights_get_insights get_insights item =
     ([STORY_METRICS],
      (case get_insights item STORY_METRICS of
         Inr r \<Rightarrow> Inr r
       | Inl (FacebookRequestError error) \<Rightarrow>
           if api_error_code error = Some 10 then Inr []
           else Inl (FacebookRequestError error)
       | Inl other \<Rightarrow> Inl other))"

section \<open>Properties of the cursor state\<close>

lemma state_filter_Inr_cases:
  assumes "state_filter parse state_pk cursor_field st rec = Inr (res, st')"
  obtains s c acct w where
    "map_of rec state_pk = Some (PStr s)" "parse s = Some c"
    "map_of rec cursor_field = Some acct" "st acct = Some w"
    "res = (if w \<ge> c then None else Some rec)"
    "st' = (if w \<ge> c then st else st(acct \<mapsto> max c w))"
  using assms
  by (auto simp: state_filter_def pendulum_parse_def
      split: option.splits sum.splits pyval.splits if_splits)

text \<open>
  C1. A record whose parsed cursor equals the stored watermark of its account is dropped:
  \<open>state_filter\<close> returns \<open>None\<close> and the state is the one it was called with. Whenever
  \<open>state_filter\<close> returns a record, it is the record passed in and its cursor is strictly
  greater than the watermark that was stored for its account.
\<close>

theorem state_filter_boundary_exclusive:
  "(map_of rec state_pk = Some (PStr s) \<and> parse s = Some c \<and>
    map_of rec cursor_field = Some acct \<and> st acct = Some c
      \<longrightarrow> state_filter parse state_pk cursor_field st rec = Inr (None, st))
   \<and>
   (state_filter parse state_pk cursor_field st rec = Inr (Some r, st')
      \<longrightarrow> r = rec \<and>
          (\<exists>s' c' acct' w. map_of rec state_pk = Some (PStr s') \<and> parse s' = Some c' \<and>
             map_of rec cursor_field = Some acct' \<and> st acct' = Some w \<and> w < c'))"
proof (intro conjI impI)
  assume "map_of rec state_pk = Some (PStr s) \<and> parse s = Some c \<and>
    map_of rec cursor_field = Some acct \<and> st acct = Some c"
  then show "state_filter parse state_pk cursor_field st rec = Inr (None, st)"
    by (simp add: state_filter_def pendulum_parse_def)
next
  assume a: "state_filter parse state_pk cursor_field st rec = Inr (Some r, st')"
  from a show "r = rec"
    by (rule state_filter_Inr_cases) (simp split: if_splits)
  from a show "\<exists>s' c' acct' w. map_of rec state_pk = Some (PStr s') \<and> parse s' = Some c' \<and>
             map_of rec cursor_field = Some acct' \<and> st acct' = Some w \<and> w < c'"
    by (rule state_filter_Inr_cases) (auto split: if_splits)
qed

theorem state_filter_boundary_exclusive_witness:
  "state_filter (\<lambda>s. if s = ''2021-01-05'' then Some 5 else None) ''date'' ''business_account_id''
       [PStr ''17'' \<mapsto> 5]
       [(''business_account_id'', PStr ''17''), (''date'', PStr ''2021-01-05'')]
     = Inr (None, [PStr ''17'' \<mapsto> 5])
   \<and> state_filter (\<lambda>s. if s = ''2021-01-05'' then Some 5 else None) ''date'' ''business_account_id''
       [PStr ''17'' \<mapsto> 4]
       [(''business_account_id'', PStr ''17''), (''date'', PStr ''2021-01-05'')]
     = Inr (Some [(''business_account_id'', PStr ''17''), (''date'', PStr ''2021-01-05'')],
            [PStr ''17'' \<mapsto> 5])
   \<and> (\<exists>s' c' acct' w.
         map_of [(''business_account_id'', PStr ''17''), (''date'', PStr ''2021-01-05'')] ''date''
           = Some (PStr s')
         \<and> (if s' = ''2021-01-05'' then Some 5 else None) = Some c'
         \<and> map_of [(''business_account_id'', PStr ''17''), (''date'', PStr ''2021-01-05'')]
             ''business_account_id'' = Some acct'
         \<and> [PStr ''17'' \<mapsto> (4::int)] acct' = Some w \<and> w < c')"
proof -
  let ?parse = "\<lambda>s. if s = ''2021-01-05'' then Some (5::int) else None"
  let ?rec = "[(''business_account_id'', PStr ''17''), (''date'', PStr ''2021-01-05'')]"
  have accepted: "state_filter ?parse ''date'' ''business_account_id'' [PStr ''17'' \<mapsto> 4] ?rec
      = Inr (Some ?rec, [PStr ''17'' \<mapsto> 5])"
    by (simp add: state_filter_def pendulum_parse_def)
  show ?thesis
    using state_filter_boundary_exclusive [where parse = ?parse and state_pk = "''date''"
        and cursor_field = "''business_account_id''" and st = "[PStr ''17'' \<mapsto> 5]"
        and rec = ?rec and s = "''2021-01-05''" and c = 5 and acct = "PStr ''17''"]
      state_filter_boundary_exclusive [where parse = ?parse and state_pk = "''date''"
        and cursor_field = "''business_account_id''" and st = "[PStr ''17'' \<mapsto> 4]"
        and rec = ?rec and r = ?rec and st' = "[PStr ''17'' \<mapsto> 5]"]
      accepted
    by simp
qed

text \<open>
  Both operations that advance a watermark, when they succeed on a stored value.
\<close>

lemma state_filter_watermark:
  assumes "map_of rec state_pk = Some (PStr s)" "parse s = Some c"
    "map_of rec cursor_field = Some acct" "st acct = Some w"
  shows "\<exists>res st'. state_filter parse state_pk cursor_field st rec = Inr (res, st')
            \<and> st' acct = Some (max w c) \<and> st' = st(acct \<mapsto> max w c)"
  using assms
  by (auto simp: state_filter_def pendulum_parse_def max_def)

lemma py_max_PStr: "py_max (PStr a) (PStr b) = Inr (PStr (max a b))"
  by (auto simp: py_max_def max_def)

text \<open>
  C2 (as amended). When \<open>state_filter\<close> is given a record whose cursor parses and whose
  account has a stored watermark, it succeeds and the watermark stored for that account
  afterwards is the maximum of the one before and the record's cursor. When the current
  state of a Square stream holds the cursor field, \<open>get_updated_state\<close> returns the
  maximum of the stored cursor and the latest record's cursor. When the current state is
  \<open>None\<close> or lacks the cursor field, \<open>get_updated_state\<close> returns the start date,
  whatever the latest record holds.
\<close>

theorem watermark_is_max:
  "(map_of rec state_pk = Some (PStr s) \<and> parse s = Some c \<and>
    map_of rec cursor_field = Some acct \<and> st acct = Some w
      \<longrightarrow> (\<exists>res st'. state_filter parse state_pk cursor_field st rec = Inr (res, st')
             \<and> st' acct = Some (max w c)))
   \<and>
   (map_of cur cf = Some (PStr old) \<and> map_of latest cf = Some (PStr new)
      \<longrightarrow> get_updated_state cf start_date (Some cur) latest = Inr [(cf, PStr (max old new))])
   \<and>
   (map_of cur cf = None
      \<longrightarrow> get_updated_state cf start_date (Some cur) latest = Inr [(cf, PStr start_date)]
          \<and> get_updated_state cf start_date None latest = Inr [(cf, PStr start_date)])"
proof (intro conjI impI)
  assume "map_of rec state_pk = Some (PStr s) \<and> parse s = Some c \<and>
    map_of rec cursor_field = Some acct \<and> st acct = Some w"
  then show "\<exists>res st'. state_filter parse state_pk cursor_field st rec = Inr (res, st')
             \<and> st' acct = Some (max w c)"
    using state_filter_watermark [of rec state_pk s parse c cursor_field acct st w] by blast
next
  assume "map_of cur cf = Some (PStr old) \<and> map_of latest cf = Some (PStr new)"
  then show "get_updated_state cf start_date (Some cur) latest = Inr [(cf, PStr (max old new))]"
    by (simp add: get_updated_state_def py_max_PStr)
next
  assume "map_of cur cf = None"
  then show "get_updated_state cf start_date (Some cur) latest = Inr [(cf, PStr start_date)]"
    by (simp add: get_updated_state_def)
next
  show "get_updated_state cf start_date None latest = Inr [(cf, PStr start_date)]"
    by (simp add: get_updated_state_def)
qed

theorem watermark_is_max_witness:
  "(\<exists>res st'. state_filter (\<lambda>s. if s = ''2021-01-05'' then Some 5 else None) ''date''
        ''business_account_id'' [PStr ''17'' \<mapsto> 3]
        [(''business_account_id'', PStr ''17''), (''date'', PStr ''2021-01-05'')] = Inr (res, st')
        \<and> st' (PStr ''17'') = Some 5)
   \<and> get_updated_state ''created_at'' ''2021-01-01'' (Some [(''created_at'', PStr ''2021-03-01'')])
        [(''created_at'', PStr ''2021-02-01'')] = Inr [(''created_at'', PStr ''2021-03-01'')]
   \<and> get_updated_state ''created_at'' ''2021-01-01'' (Some [])
        [(''created_at'', PStr ''2021-02-01'')] = Inr [(''created_at'', PStr ''2021-01-01'')]"
  using watermark_is_max [of "[(''business_account_id'', PStr ''17''), (''date'', PStr ''2021-01-05'')]"
      "''date''" "''2021-01-05''" "\<lambda>s. if s = ''2021-01-05'' then Some 5 else None" 5
      "''business_account_id''" "PStr ''17''" "[PStr ''17'' \<mapsto> 3]" 3
      "[(''created_at'', PStr ''2021-03-01'')]" "''created_at''" "''2021-03-01''"
      "[(''created_at'', PStr ''2021-02-01'')]" "''2021-02-01''" "''2021-01-01''"]
    watermark_is_max [where cur = "[]" and cf = "''created_at''" and start_date = "''2021-01-01''"
      and latest = "[(''created_at'', PStr ''2021-02-01'')]"]
  by simp

text \<open>
  The claim as first stated fails for \<open>get_updated_state\<close> on an empty state: the state
  returned holds the start date, which is strictly below the cursor of the latest
  record, so it is not the maximum of that cursor and any previous value.
\<close>

theorem watermark_counterexample:
  "get_updated_state ''created_at'' ''2021-01-01T00:00:00+00:00'' (Some [])
     [(''created_at'', PStr ''2021-06-01T12:00:00.000Z'')]
     = Inr [(''created_at'', PStr ''2021-01-01T00:00:00+00:00'')]
   \<and> (''2021-01-01T00:00:00+00:00'' :: string) < ''2021-06-01T12:00:00.000Z''"
  by (simp add: get_updated_state_def)

section \<open>Properties of the retry policy\<close>

declare retry_from.simps [simp del]

lemma retry_from_succeeds:
  "(\<And>i. n \<le> i \<Longrightarrow> i < n + k \<Longrightarrow> \<exists>e. operation i = Inl e \<and> retryable e)
   \<Longrightarrow> operation (n + k) = Inr v \<Longrightarrow> n + k < mt
   \<Longrightarrow> retry_from mt retryable operation n = (Inr v, Suc (n + k))"
proof (induction k arbitrary: n)
  case 0
  then show ?case by (subst retry_from.simps) simp
next
  case (Suc k)
  from Suc.prems(1) [of n] obtain e where e: "operation n = Inl e" "retryable e" by auto
  have "retry_from mt retryable operation (Suc n) = (Inr v, Suc (Suc n + k))"
    using Suc.prems by (intro Suc.IH) auto
  with e Suc.prems(3) show ?case by (subst retry_from.simps) simp
qed

lemma retry_from_gives_up:
  "(\<And>i. n \<le> i \<Longrightarrow> i < mt \<Longrightarrow> \<exists>e. operation i = Inl e \<and> retryable e)
   \<Longrightarrow> n < mt
   \<Longrightarrow> retry_from mt retryable operation n = (operation (mt - 1), mt)"
proof (induction "mt - n" arbitrary: n)
  case 0
  then show ?case by simp
next
  case (Suc d)
  from Suc.prems(1) [of n] Suc.prems(2) obtain e where e: "operation n = Inl e" "retryable e" by auto
  show ?case
  proof (cases "Suc n < mt")
    case True
    have "retry_from mt retryable operation (Suc n) = (operation (mt - 1), mt)"
      using Suc.prems Suc.hyps True by (intro Suc.hyps(1)) auto
    with e True show ?thesis by (subst retry_from.simps) simp
  next
    case False
    with Suc.prems(2) have "mt = Suc n" by simp
    with e show ?thesis by (subst retry_from.simps) simp
  qed
qed

lemma retry_from_not_retryable:
  "operation n = Inl e \<Longrightarrow> \<not> retryable e \<Longrightarrow> retry_from mt retryable operation n = (Inl e, Suc n)"
  by (subst retry_from.simps) simp

text \<open>
  C3. Under the policy with \<open>max_tries = 7\<close>: an operation that fails \<open>k < 7\<close> times with
  a \<open>FacebookRequestError\<close> and then succeeds yields its result after \<open>k + 1\<close>
  invocations; an operation whose first seven invocations all fail with a
  \<open>FacebookRequestError\<close> yields the error of the seventh after exactly 7 invocations; an
  operation that first fails with an error of another type yields that error after a
  single invocation.
\<close>

theorem backoff_policy_bound:
  "(k < 7 \<and> (\<forall>i. i < k \<longrightarrow> (\<exists>e. operation i = Inl (FacebookRequestError e))) \<and> operation k = Inr v
      \<longrightarrow> backoff_policy operation = (Inr v, k + 1))
   \<and>
   ((\<forall>i. i < 7 \<longrightarrow> (\<exists>e. operation i = Inl (FacebookRequestError e)))
      \<longrightarrow> backoff_policy operation = (operation 6, 7))
   \<and>
   (operation 0 = Inl x \<and> \<not> is_FacebookRequestError x
      \<longrightarrow> backoff_policy operation = (Inl x, 1))"
proof (intro conjI impI)
  assume a: "k < 7 \<and> (\<forall>i. i < k \<longrightarrow> (\<exists>e. operation i = Inl (FacebookRequestError e))) \<and> operation k = Inr v"
  have "retry_from max_tries is_FacebookRequestError operation 0 = (Inr v, Suc (0 + k))"
  proof (rule retry_from_succeeds)
    fix i assume "0 \<le> i" "i < 0 + k"
    with a obtain e where "operation i = Inl (FacebookRequestError e)" by auto
    then show "\<exists>e. operation i = Inl e \<and> is_FacebookRequestError e" by simp
  qed (use a in \<open>simp_all add: max_tries_def\<close>)
  then show "backoff_policy operation = (Inr v, k + 1)" by (simp add: backoff_policy_def)
next
  assume a: "\<forall>i. i < 7 \<longrightarrow> (\<exists>e. operation i = Inl (FacebookRequestError e))"
  have "retry_from max_tries is_FacebookRequestError operation 0 = (operation (max_tries - 1), max_tries)"
  proof (rule retry_from_gives_up)
    fix i assume "0 \<le> i" "i < max_tries"
    with a obtain e where "operation i = Inl (FacebookRequestError e)" by (auto simp: max_tries_def)
    then show "\<exists>e. operation i = Inl e \<and> is_FacebookRequestError e" by simp
  qed (simp add: max_tries_def)
  then show "backoff_policy operation = (operation 6, 7)" by (simp add: backoff_policy_def max_tries_def)
next
  assume "operation 0 = Inl x \<and> \<not> is_FacebookRequestError x"
  then show "backoff_policy operation = (Inl x, 1)"
    by (simp add: backoff_policy_def retry_from_not_retryable)
qed

theorem backoff_policy_bound_witness:
  "backoff_policy (\<lambda>n. if n < 2 then Inl (FacebookRequestError
        \<lparr>api_error_code = Some 4, api_error_subcode = None, api_error_message = ''limit''\<rparr>)
        else Inr (42::nat)) = (Inr 42, 3)
   \<and> backoff_policy (\<lambda>n. (Inl (FacebookRequestError
        \<lparr>api_error_code = Some 4, api_error_subcode = None, api_error_message = ''limit''\<rparr>)
        :: exn + nat))
      = (Inl (FacebookRequestError
        \<lparr>api_error_code = Some 4, api_error_subcode = None, api_error_message = ''limit''\<rparr>), 7)
   \<and> backoff_policy (\<lambda>n. if n = 0 then Inl KeyError else Inr (42::nat)) = (Inl KeyError, 1)"
  using backoff_policy_bound [where k = 2 and v = "42::nat" and operation = "\<lambda>n. if n < 2 then Inl (FacebookRequestError
        \<lparr>api_error_code = Some 4, api_error_subcode = None, api_error_message = ''limit''\<rparr>)
        else Inr (42::nat)"]
    backoff_policy_bound [where operation = "\<lambda>n. (Inl (FacebookRequestError
        \<lparr>api_error_code = Some 4, api_error_subcode = None, api_error_message = ''limit''\<rparr>)
        :: exn + nat)"]
    backoff_policy_bound [where operation = "\<lambda>n. if n = 0 then Inl KeyError else Inr (42::nat)"
        and x = KeyError]
  by simp

section \<open>Properties of pagination\<close>

lemma pagination_loop_finishes:
  "(\<And>i. n < i \<Longrightarrow> i < n + k \<Longrightarrow> \<exists>q. provider i = Inr (q, False))
   \<Longrightarrow> provider (n + k) = Inr (q, True) \<Longrightarrow> 0 < k
   \<Longrightarrow> pagination_loop provider n yielded
       = Some (yielded @ concat (map (\<lambda>i. case provider i of Inr p \<Rightarrow> fst p | Inl _ \<Rightarrow> []) [Suc n..<Suc (n + k)]),
               n + k, None)"
proof (induction k arbitrary: n yielded)
  case 0
  then show ?case by simp
next
  case (Suc k)
  show ?case
  proof (cases "k = 0")
    case True
    with Suc.prems(2) show ?thesis by (subst pagination_loop.simps) simp
  next
    case False
    from Suc.prems(1) [of "Suc n"] False obtain q' where q': "provider (Suc n) = Inr (q', False)" by auto
    have "pagination_loop provider (Suc n) (yielded @ q')
       = Some ((yielded @ q') @ concat (map (\<lambda>i. case provider i of Inr p \<Rightarrow> fst p | Inl _ \<Rightarrow> []) [Suc (Suc n)..<Suc (Suc n + k)]),
               Suc n + k, None)"
      using Suc.prems False by (intro Suc.IH) auto
    moreover have "[Suc n..<Suc (n + Suc k)] = Suc n # [Suc (Suc n)..<Suc (Suc n + k)]"
      by (simp add: upt_conv_Cons)
    ultimately show ?thesis using q' by (subst pagination_loop.simps) simp
  qed
qed

lemma pagination_exhaustive:
  assumes "\<And>i. i < k \<Longrightarrow> \<exists>q. provider i = Inr (q, False)" "provider k = Inr (q, True)"
  shows "pagination provider
       = Some (concat (map (\<lambda>i. case provider i of Inr p \<Rightarrow> fst p | Inl _ \<Rightarrow> []) [0..<Suc k]), k, None)"
proof (cases "k = 0")
  case True
  with assms(2) show ?thesis by (simp add: pagination_def)
next
  case False
  from assms(1) [of 0] False obtain q0 where q0: "provider 0 = Inr (q0, False)" by auto
  have "pagination_loop provider 0 q0
       = Some (q0 @ concat (map (\<lambda>i. case provider i of Inr p \<Rightarrow> fst p | Inl _ \<Rightarrow> []) [Suc 0..<Suc (0 + k)]),
               0 + k, None)"
    using assms False by (intro pagination_loop_finishes) auto
  moreover have "[0..<Suc k] = 0 # [Suc 0..<Suc k]" by (simp add: upt_conv_Cons)
  ultimately show ?thesis using q0 by (simp add: pagination_def)
qed

text \<open>
  C4. For a provider whose cursor holds the buffer \<open>[a, b]\<close> first, \<open>[c]\<close> after one
  \<open>load_next_page\<close>, and an empty buffer with the completion flag set after a second,
  \<open>pagination\<close> ends, yields exactly \<open>a, b, c\<close> in this order, and has called
  \<open>load_next_page\<close> exactly twice: none after the flag was seen.
\<close>

theorem pagination_three_pages:
  "provider 0 = Inr ([a, b], False) \<and> provider 1 = Inr ([c], False) \<and> provider 2 = Inr ([], True)
     \<longrightarrow> pagination provider = Some ([a, b, c], 2, None)"
proof
  assume a: "provider 0 = Inr ([a, b], False) \<and> provider 1 = Inr ([c], False) \<and> provider 2 = Inr ([], True)"
  have "\<exists>q. provider i = Inr (q, False)" if "i < 2" for i
  proof -
    from that have "i = 0 \<or> i = 1" by auto
    with a show ?thesis by auto
  qed
  then have "pagination provider
       = Some (concat (map (\<lambda>i. case provider i of Inr p \<Rightarrow> fst p | Inl _ \<Rightarrow> []) [0..<Suc 2]), 2, None)"
    using a by (intro pagination_exhaustive) auto
  moreover have "[0..<Suc 2] = [0, 1, 2]" by (simp add: upt_conv_Cons)
  ultimately show "pagination provider = Some ([a, b, c], 2, None)" using a by simp
qed

theorem pagination_three_pages_witness:
  "pagination (\<lambda>n. if n = 0 then Inr ([1::nat, 2], False) else if n = 1 then Inr ([3], False)
                    else if n = 2 then Inr ([], True) else Inl (OtherError ''no such page''))
     = Some ([1, 2, 3], 2, None)"
  using pagination_three_pages [where provider = "\<lambda>n. if n = 0 then Inr ([1::nat, 2], False) else if n = 1 then Inr ([3], False)
                    else if n = 2 then Inr ([], True) else Inl (OtherError ''no such page'')"
      and a = 1 and b = 2 and c = 3]
  by simp

section \<open>Properties of the call rate headers\<close>

text \<open>
  C5 (as amended). When none of the three usage headers is present with a non-empty
  value, \<open>parse_call_rate_header\<close> returns a call count of zero and a zero pause, and
  \<open>handle_call_rate_limit\<close> returns without sleeping. When the usage header selected is a
  non-empty text that is not valid JSON, the \<open>JSONDecodeError\<close> of \<open>json.loads\<close> leaves
  \<open>parse_call_rate_header\<close> and \<open>handle_call_rate_limit\<close>: neither catches it.
\<close>

theorem call_rate_header_malformed:
  "(\<not> truthy_header (map_of hs ''x-business-use-case-usage'')
    \<and> \<not> truthy_header (map_of hs ''x-app-usage'')
    \<and> \<not> truthy_header (map_of hs ''x-ad-account-usage'')
      \<longrightarrow> parse_call_rate_header hs = Inr (PInt 0, 0) \<and> handle_call_rate_limit hs = Inr None)
   \<and>
   (usage_header_of hs = Some (NotJson s) \<and> s \<noteq> []
      \<longrightarrow> parse_call_rate_header hs = Inl JSONDecodeError
          \<and> handle_call_rate_limit hs = Inl JSONDecodeError)"
  by (simp add: parse_call_rate_header_def handle_call_rate_limit_def usage_header_of_def
      json_loads_def truthy_header_def call_rate_threshold_def)

theorem call_rate_header_malformed_witness:
  "parse_call_rate_header [(''content-type'', NotJson ''text/html''), (''x-app-usage'', NotJson [])]
     = Inr (PInt 0, 0)
   \<and> handle_call_rate_limit [(''content-type'', NotJson ''text/html''), (''x-app-usage'', NotJson [])]
     = Inr None
   \<and> parse_call_rate_header [(''x-ad-account-usage'', NotJson ''{acc_id_util_pct'')]
     = Inl JSONDecodeError
   \<and> handle_call_rate_limit [(''x-ad-account-usage'', NotJson ''{acc_id_util_pct'')]
     = Inl JSONDecodeError"
  using call_rate_header_malformed
      [where hs = "[(''content-type'', NotJson ''text/html''), (''x-app-usage'', NotJson [])]"]
    call_rate_header_malformed
      [where hs = "[(''x-ad-account-usage'', NotJson ''{acc_id_util_pct'')]"
         and s = "''{acc_id_util_pct''"]
  by (simp add: truthy_header_def usage_header_of_def)

text \<open>
  The claim as first stated fails on a usage header that is not JSON: the parse raises
  instead of returning zero utilisation and a zero pause, and so does
  \<open>handle_call_rate_limit\<close>.
\<close>

theorem call_rate_header_counterexample:
  "parse_call_rate_header [(''x-app-usage'', NotJson ''not json'')] = Inl JSONDecodeError
   \<and> handle_call_rate_limit [(''x-app-usage'', NotJson ''not json'')] = Inl JSONDecodeError"
  by (simp add: parse_call_rate_header_def handle_call_rate_limit_def usage_header_of_def
      json_loads_def truthy_header_def)

text \<open>
  A well-formed header, for comparison: 95 percent with two minutes to regain access
  makes the client sleep 120 seconds.
\<close>

lemma call_rate_header_well_formed_example:
  "parse_call_rate_header [(''x-app-usage'', JsonText (PDict [(''call_count'', PInt 95), (''estimated_time_to_regain_access'', PInt 2)]))] = Inr (PInt 95, 120)
   \<and> handle_call_rate_limit [(''x-app-usage'', JsonText (PDict [(''call_count'', PInt 95), (''estimated_time_to_regain_access'', PInt 2)]))] = Inr (Some 120)"
  by (simp add: parse_call_rate_header_def handle_call_rate_limit_def usage_header_of_def
      json_loads_def truthy_header_def call_rate_threshold_def dict_get_def py_or_def)

section \<open>Properties of record shaping\<close>

subsection \<open>Keys of the merged insight record\<close>

lemma insight_key_cases:
  "insight_key i =
     (if i_period i = Some ''week'' then i_name i @ ''_week''
      else if i_period i = Some ''days_28'' then i_name i @ ''_days_28''
      else i_name i)"
  by (auto simp: insight_key_def split: option.splits)

lemma add_insight_dom:
  "add_insight r i = Inr r' \<Longrightarrow> insert (insight_key i) (dom (map_of r)) \<subseteq> dom (map_of r')"
  by (auto simp: add_insight_def Let_def update_conv' split: list.splits if_splits)

lemma add_insights_dom:
  "add_insights r is = Inr r' \<Longrightarrow> dom (map_of r) \<union> insight_key ` set is \<subseteq> dom (map_of r')"
proof (induction "is" arbitrary: r)
  case Nil
  then show ?case by simp
next
  case (Cons i "is")
  from Cons.prems obtain r1 where r1: "add_insight r i = Inr r1" "add_insights r1 is = Inr r'"
    by (auto split: sum.splits)
  from add_insight_dom [OF r1(1)] Cons.IH [OF r1(2)] show ?case by auto
qed

text \<open>
  C6. If the insight list of a day holds two entries of the same name \<open>n\<close>, one of period
  \<open>week\<close> and one of period \<open>days_28\<close>, their keys are \<open>n_week\<close> and \<open>n_days_28\<close>,
  these differ, and the merged record has both. An entry whose period is neither
  \<open>week\<close> nor \<open>days_28\<close> (\<open>day\<close>, any other period, or none) has its name alone as key,
  and the merged record has that key.
\<close>

theorem insight_keys_by_period:
  "(e1 \<in> set insight_list \<and> e2 \<in> set insight_list \<and> i_name e1 = n \<and> i_name e2 = n
    \<and> i_period e1 = Some ''week'' \<and> i_period e2 = Some ''days_28''
    \<and> insight_record_of page_id account_id insight_list = Inr r
      \<longrightarrow> insight_key e1 = n @ ''_week'' \<and> insight_key e2 = n @ ''_days_28''
          \<and> n @ ''_week'' \<noteq> n @ ''_days_28''
          \<and> n @ ''_week'' \<in> dom (map_of r) \<and> n @ ''_days_28'' \<in> dom (map_of r))
   \<and>
   (i_period e \<noteq> Some ''week'' \<and> i_period e \<noteq> Some ''days_28'' \<longrightarrow> insight_key e = i_name e)
   \<and>
   (e \<in> set insight_list \<and> i_period e \<noteq> Some ''week'' \<and> i_period e \<noteq> Some ''days_28''
    \<and> insight_record_of page_id account_id insight_list = Inr r
      \<longrightarrow> i_name e \<in> dom (map_of r))"
proof (intro conjI impI)
  assume a: "e1 \<in> set insight_list \<and> e2 \<in> set insight_list \<and> i_name e1 = n \<and> i_name e2 = n
    \<and> i_period e1 = Some ''week'' \<and> i_period e2 = Some ''days_28''
    \<and> insight_record_of page_id account_id insight_list = Inr r"
  then have sub: "insight_key ` set insight_list \<subseteq> dom (map_of r)"
    using add_insights_dom [of "[(''page_id'', page_id), (''business_account_id'', account_id)]" insight_list r]
    by (simp add: insight_record_of_def)
  from a show k1: "insight_key e1 = n @ ''_week''" by (simp add: insight_key_cases)
  from a show k2: "insight_key e2 = n @ ''_days_28''" by (simp add: insight_key_cases)
  show "n @ ''_week'' \<noteq> n @ ''_days_28''" by simp
  from a sub k1 show "n @ ''_week'' \<in> dom (map_of r)" by (metis image_subset_iff)
  from a sub k2 show "n @ ''_days_28'' \<in> dom (map_of r)" by (metis image_subset_iff)
next
  assume "i_period e \<noteq> Some ''week'' \<and> i_period e \<noteq> Some ''days_28''"
  then show "insight_key e = i_name e" by (simp add: insight_key_cases)
next
  assume a: "e \<in> set insight_list \<and> i_period e \<noteq> Some ''week'' \<and> i_period e \<noteq> Some ''days_28''
    \<and> insight_record_of page_id account_id insight_list = Inr r"
  then have sub: "insight_key ` set insight_list \<subseteq> dom (map_of r)"
    using add_insights_dom [of "[(''page_id'', page_id), (''business_account_id'', account_id)]" insight_list r]
    by (simp add: insight_record_of_def)
  from a have "insight_key e = i_name e" by (simp add: insight_key_cases)
  with a sub show "i_name e \<in> dom (map_of r)" by (metis image_subset_iff)
qed

theorem insight_keys_by_period_witness:
  "insight_record_of (PStr ''p1'') (PStr ''17'')
     [\<lparr>i_name = ''reach'', i_period = Some ''day'', i_values = [\<lparr>iv_value = PInt 3, iv_end_time = PStr ''2021-01-05''\<rparr>]\<rparr>,
      \<lparr>i_name = ''reach'', i_period = Some ''week'', i_values = [\<lparr>iv_value = PInt 20, iv_end_time = PStr ''2021-01-05''\<rparr>]\<rparr>,
      \<lparr>i_name = ''reach'', i_period = Some ''days_28'', i_values = [\<lparr>iv_value = PInt 90, iv_end_time = PStr ''2021-01-05''\<rparr>]\<rparr>]
   = Inr [(''page_id'', PStr ''p1''), (''business_account_id'', PStr ''17''), (''reach'', PInt 3),
          (''date'', PStr ''2021-01-05''), (''reach_week'', PInt 20), (''reach_days_28'', PInt 90)]
   \<and> ''reach_week'' \<in> dom (map_of [(''page_id'', PStr ''p1''), (''business_account_id'', PStr ''17''), (''reach'', PInt 3),
          (''date'', PStr ''2021-01-05''), (''reach_week'', PInt 20), (''reach_days_28'', PInt 90)])
   \<and> ''reach_days_28'' \<in> dom (map_of [(''page_id'', PStr ''p1''), (''business_account_id'', PStr ''17''), (''reach'', PInt 3),
          (''date'', PStr ''2021-01-05''), (''reach_week'', PInt 20), (''reach_days_28'', PInt 90)])
   \<and> ''reach'' \<in> dom (map_of [(''page_id'', PStr ''p1''), (''business_account_id'', PStr ''17''), (''reach'', PInt 3),
          (''date'', PStr ''2021-01-05''), (''reach_week'', PInt 20), (''reach_days_28'', PInt 90)])
   \<and> insight_key \<lparr>i_name = ''reach'', i_period = Some ''day'', i_values = [\<lparr>iv_value = PInt 3, iv_end_time = PStr ''2021-01-05''\<rparr>]\<rparr> = ''reach''"
proof -
  let ?d = "\<lparr>i_name = ''reach'', i_period = Some ''day'', i_values = [\<lparr>iv_value = PInt 3, iv_end_time = PStr ''2021-01-05''\<rparr>]\<rparr>"
  let ?w = "\<lparr>i_name = ''reach'', i_period = Some ''week'', i_values = [\<lparr>iv_value = PInt 20, iv_end_time = PStr ''2021-01-05''\<rparr>]\<rparr>"
  let ?m = "\<lparr>i_name = ''reach'', i_period = Some ''days_28'', i_values = [\<lparr>iv_value = PInt 90, iv_end_time = PStr ''2021-01-05''\<rparr>]\<rparr>"
  let ?r = "[(''page_id'', PStr ''p1''), (''business_account_id'', PStr ''17''), (''reach'', PInt 3),
          (''date'', PStr ''2021-01-05''), (''reach_week'', PInt 20), (''reach_days_28'', PInt 90)]"
  have built: "insight_record_of (PStr ''p1'') (PStr ''17'') [?d, ?w, ?m] = Inr ?r"
    by (simp add: insight_record_of_def add_insight_def insight_key_def dict_get_def)
  show ?thesis
    using insight_keys_by_period [where ?e1.0 = ?w and ?e2.0 = ?m and e = ?d and n = "''reach''"
        and insight_list = "[?d, ?w, ?m]" and page_id = "PStr ''p1''" and account_id = "PStr ''17''"
        and r = ?r] built
    by simp
qed

subsection \<open>Removing volatile query parameters\<close>

lemmas url_defs = urlparse_def urlsplit_def urlunparse_def urlunsplit_def split_scheme_def
  splitnetloc_def check_netloc_def cut_at_def splitparams_def is_ascii_def is_ascii_alpha_def
  ascii_lower_def scheme_chars_def uses_netloc_def uses_params_def
  WHATWG_C0_CONTROL_OR_SPACE_def UNSAFE_URL_BYTES_TO_REMOVE_def

text \<open>
  The model of the library on some URLs: the parts of a parsed URL; a scheme is
  lower-cased, leading blanks are stripped, a \<open>;\<close> before empty parameters and a \<open>?\<close>
  before an empty query are dropped; one bracket without the other is refused.
\<close>

lemma urlparse_examples:
  "urlparse netloc_ok ''https://h/p;a=1?x=1&ccb=2#f''
     = Inr \<lparr>u_scheme = ''https'', u_netloc = ''h'', u_path = ''/p'', u_params = ''a=1'',
             u_query = ''x=1&ccb=2'', u_fragment = ''f''\<rparr>"
  "map_sum id urlunparse (urlparse netloc_ok ''HTTP://H/p?x=1'') = Inr ''http://H/p?x=1''"
  "map_sum id urlunparse (urlparse netloc_ok ''  http://h/p?x=1'') = Inr ''http://h/p?x=1''"
  "map_sum id urlunparse (urlparse netloc_ok ''http://h/p;?x=1'') = Inr ''http://h/p?x=1''"
  "map_sum id urlunparse (urlparse netloc_ok ''http://h/p?#'') = Inr ''http://h/p''"
  "map_sum id urlunparse (urlparse netloc_ok ''http:p?x=1'') = Inr ''http:///p?x=1''"
  "urlparse netloc_ok ''http://[::1/p?x=1'' = Inl ValueError"
  by (simp_all add: url_defs)

text \<open>
  When the loop of \<open>clear_query_params\<close> succeeds, what it keeps is exactly the
  components whose key is neither \<open>_nc_rid\<close> nor \<open>ccb\<close>, unchanged and in their order.
\<close>

lemma split_on_not_Nil: "split_on c s \<noteq> []"
  by (induction s) (auto split: list.splits)

lemma split_on_single: "split_on c s = [v] \<Longrightarrow> s = v"
proof (induction s arbitrary: v)
  case Nil
  then show ?case by simp
next
  case (Cons x xs)
  then show ?case
    by (auto simp: split_on_not_Nil split: if_splits list.splits)
qed

lemma split_on_pair: "split_on c s = [k, v] \<Longrightarrow> s = k @ c # v"
proof (induction s arbitrary: k)
  case Nil
  then show ?case by simp
next
  case (Cons x xs)
  show ?case
  proof (cases "x = c")
    case True
    with Cons.prems have "k = []" "split_on c xs = [v]" by auto
    then show ?thesis using True split_on_single [of c xs v] by simp
  next
    case False
    with Cons.prems obtain w where "split_on c xs = [w, v]" "k = x # w"
      by (auto split: list.splits)
    then show ?thesis using Cons.IH [of w] by simp
  qed
qed

lemma split_on_head: "split_on c s = k # rest \<Longrightarrow> k = takeWhile (\<lambda>x. x \<noteq> c) s"
proof (induction s arbitrary: k rest)
  case Nil
  then show ?case by simp
next
  case (Cons x xs)
  then show ?case by (auto simp: split_on_not_Nil split: if_splits list.splits)
qed

lemma clear_query_loop_keeps_others:
  "clear_query_loop res_query qs = Inr out
   \<Longrightarrow> out = res_query @ filter (\<lambda>q. takeWhile (\<lambda>x. x \<noteq> CHR ''='') q \<notin> set [''_nc_rid'', ''ccb'']) qs"
proof (induction qs arbitrary: res_query)
  case Nil
  then show ?case by simp
next
  case (Cons q qs)
  from Cons.prems obtain k v where kv: "split_on CHR ''='' q = [k, v]"
    by (auto split: list.splits)
  have q: "k @ ''='' @ v = q" using split_on_pair [OF kv] by simp
  have k: "takeWhile (\<lambda>x. x \<noteq> CHR ''='') q = k" using split_on_head [OF kv] by simp
  show ?case
  proof (cases "k \<in> set [''_nc_rid'', ''ccb'']")
    case True
    with Cons.prems kv have "clear_query_loop res_query qs = Inr out" by auto
    from Cons.IH [OF this] have "out = res_query @ filter (\<lambda>q. takeWhile (\<lambda>x. x \<noteq> CHR ''='') q \<notin> set [''_nc_rid'', ''ccb'']) qs" .
    moreover from True have "takeWhile (\<lambda>x. x \<noteq> CHR ''='') q \<in> set [''_nc_rid'', ''ccb'']"
      by (simp add: k)
    ultimately show ?thesis by simp
  next
    case False
    with Cons.prems kv have "clear_query_loop (res_query @ [k @ ''='' @ v]) qs = Inr out" by auto
    from Cons.IH [OF this] have "out = (res_query @ [q]) @ filter (\<lambda>q. takeWhile (\<lambda>x. x \<noteq> CHR ''='') q \<notin> set [''_nc_rid'', ''ccb'']) qs"
      by (simp only: q)
    moreover from False have "takeWhile (\<lambda>x. x \<noteq> CHR ''='') q \<notin> set [''_nc_rid'', ''ccb'']"
      by (simp add: k)
    ultimately show ?thesis by simp
  qed
qed

text \<open>
  C7. The code at a failing input: a profile picture URL whose only query parameter is
  \<open>ccb\<close> is sanitised to the URL without a query, and sanitising that result again raises
  \<open>ValueError\<close>, since the empty query splits into one empty component that does not
  unpack into a key and a value. A URL that has no query in the first place fails the
  same way.
\<close>

theorem clear_url_not_idempotent:
  "clear_url netloc_ok
       [(''id'', PStr ''17''), (''profile_picture_url'', PStr ''https://h/p.jpg?ccb=1-5'')]
     = Inr [(''id'', PStr ''17''), (''profile_picture_url'', PStr ''https://h/p.jpg'')]
   \<and> clear_url netloc_ok
       [(''id'', PStr ''17''), (''profile_picture_url'', PStr ''https://h/p.jpg'')]
     = Inl ValueError
   \<and> clear_query_params netloc_ok ''https://h/p.jpg?ccb=1-5'' = Inr ''https://h/p.jpg''
   \<and> clear_query_params netloc_ok ''https://h/p.jpg'' = Inl ValueError"
  by (simp add: clear_url_def clear_field_def dict_get_def clear_query_params_def url_defs)

text \<open>
  Further inputs: \<open>_nc_rid\<close> is removed from a video URL with the other parameters kept
  in order; a value that contains \<open>=\<close> and a parameter without \<open>=\<close> raise
  \<open>ValueError\<close>.
\<close>

lemma clear_url_examples:
  "clear_url netloc_ok
       [(''media_type'', PStr ''VIDEO''), (''media_url'', PStr ''https://h/v.mp4?_nc_ht=a&_nc_rid=77&oh=b'')]
     = Inr [(''media_type'', PStr ''VIDEO''), (''media_url'', PStr ''https://h/v.mp4?_nc_ht=a&oh=b'')]
   \<and> clear_query_params netloc_ok ''https://h/v.mp4?sig=abc=='' = Inl ValueError
   \<and> clear_query_params netloc_ok ''https://h/v.mp4?a=1&flag'' = Inl ValueError"
  by (simp add: clear_url_def clear_field_def dict_get_def clear_query_params_def url_defs)

subsection \<open>Media and story insights\<close>

text \<open>
  C8. \<open>MediaInsights._get_insights\<close> issues one insight request, and the metrics of
  that request are chosen from the item's \<open>media_type\<close>: \<open>MEDIA_METRICS\<close> with
  \<open>video_views\<close> for \<open>VIDEO\<close>, \<open>CAROUSEL_ALBUM_METRICS\<close> alone for \<open>CAROUSEL_ALBUM\<close>,
  \<open>MEDIA_METRICS\<close> for every other item; the insights returned are those the SDK gave
  for these metrics.
\<close>

theorem media_metrics_selected_before_fetch:
  "(dict_get item ''media_type'' = PStr ''VIDEO''
      \<longrightarrow> fst (MediaInsights_get_insights get_insights item)
            = [[''engagement'', ''impressions'', ''reach'', ''saved'', ''video_views'']]
          \<and> (\<forall>r. get_insights item (MEDIA_METRICS @ [''video_views'']) = Inr r
                \<longrightarrow> snd (MediaInsights_get_insights get_insights item) = Inr (Some r)))
   \<and>
   (dict_get item ''media_type'' = PStr ''CAROUSEL_ALBUM''
      \<longrightarrow> fst (MediaInsights_get_insights get_insights item)
            = [[''carousel_album_engagement'', ''carousel_album_impressions'',
                ''carousel_album_reach'', ''carousel_album_saved'']]
          \<and> (\<forall>r. get_insights item CAROUSEL_ALBUM_METRICS = Inr r
                \<longrightarrow> snd (MediaInsights_get_insights get_insights item) = Inr (Some r)))
   \<and>
   (dict_get item ''media_type'' \<noteq> PStr ''VIDEO'' \<and> dict_get item ''media_type'' \<noteq> PStr ''CAROUSEL_ALBUM''
      \<longrightarrow> fst (MediaInsights_get_insights get_insights item)
            = [[''engagement'', ''impressions'', ''reach'', ''saved'']]
          \<and> (\<forall>r. get_insights item MEDIA_METRICS = Inr r
                \<longrightarrow> snd (MediaInsights_get_insights get_insights item) = Inr (Some r)))"
  by (simp add: MediaInsights_get_insights_def MEDIA_METRICS_def CAROUSEL_ALBUM_METRICS_def Let_def)

theorem media_metrics_selected_before_fetch_witness:
  "MediaInsights_get_insights (\<lambda>i ms. Inr ms) [(''id'', PStr ''1''), (''media_type'', PStr ''VIDEO'')]
     = ([[''engagement'', ''impressions'', ''reach'', ''saved'', ''video_views'']],
        Inr (Some [''engagement'', ''impressions'', ''reach'', ''saved'', ''video_views'']))
   \<and> MediaInsights_get_insights (\<lambda>i ms. Inr ms) [(''id'', PStr ''2''), (''media_type'', PStr ''CAROUSEL_ALBUM'')]
     = ([[''carousel_album_engagement'', ''carousel_album_impressions'',
          ''carousel_album_reach'', ''carousel_album_saved'']],
        Inr (Some [''carousel_album_engagement'', ''carousel_album_impressions'',
          ''carousel_album_reach'', ''carousel_album_saved'']))
   \<and> MediaInsights_get_insights (\<lambda>i ms. Inr ms) [(''id'', PStr ''3''), (''media_type'', PStr ''IMAGE'')]
     = ([[''engagement'', ''impressions'', ''reach'', ''saved'']],
        Inr (Some [''engagement'', ''impressions'', ''reach'', ''saved'']))"
  using media_metrics_selected_before_fetch
      [where item = "[(''id'', PStr ''1''), (''media_type'', PStr ''VIDEO'')]"
         and get_insights = "\<lambda>i ms. Inr ms"]
    media_metrics_selected_before_fetch
      [where item = "[(''id'', PStr ''2''), (''media_type'', PStr ''CAROUSEL_ALBUM'')]"
         and get_insights = "\<lambda>i ms. Inr ms"]
    media_metrics_selected_before_fetch
      [where item = "[(''id'', PStr ''3''), (''media_type'', PStr ''IMAGE'')]"
         and get_insights = "\<lambda>i ms. Inr ms"]
  by (simp add: dict_get_def MEDIA_METRICS_def CAROUSEL_ALBUM_METRICS_def prod_eq_iff)

lemma MediaInsights_get_insights_cases:
  obtains sel where "fst (MediaInsights_get_insights g item) = [sel]"
    and "\<And>r. g item sel = Inr r \<Longrightarrow> snd (MediaInsights_get_insights g item) = Inr (Some r)"
    and "\<And>e. g item sel = Inl (FacebookRequestError e) \<Longrightarrow>
           snd (MediaInsights_get_insights g item)
             = (if api_error_subcode e = Some 2108006 then Inr None else Inl (FacebookRequestError e))"
    and "\<And>x. g item sel = Inl x \<Longrightarrow> \<not> is_FacebookRequestError x \<Longrightarrow>
           snd (MediaInsights_get_insights g item) = Inl x"
proof -
  let ?sel = "if dict_get item ''media_type'' = PStr ''VIDEO'' then MEDIA_METRICS @ [''video_views'']
             else if dict_get item ''media_type'' = PStr ''CAROUSEL_ALBUM'' then CAROUSEL_ALBUM_METRICS
             else MEDIA_METRICS"
  have 1: "fst (MediaInsights_get_insights g item) = [?sel]"
    by (simp add: MediaInsights_get_insights_def Let_def)
  have 2: "snd (MediaInsights_get_insights g item) = Inr (Some r)" if "g item ?sel = Inr r" for r
    using that by (simp add: MediaInsights_get_insights_def Let_def)
  have 3: "snd (MediaInsights_get_insights g item)
             = (if api_error_subcode e = Some 2108006 then Inr None else Inl (FacebookRequestError e))"
    if "g item ?sel = Inl (FacebookRequestError e)" for e
    using that by (simp add: MediaInsights_get_insights_def Let_def)
  have 4: "snd (MediaInsights_get_insights g item) = Inl x"
    if "g item ?sel = Inl x" "\<not> is_FacebookRequestError x" for x
    using that by (cases x) (simp_all add: MediaInsights_get_insights_def Let_def)
  from 1 2 3 4 show thesis by (rule that)
qed

text \<open>
  C9. In \<open>StoriesInsights._get_insights\<close> a \<open>FacebookRequestError\<close> of the fetch yields
  the empty list when its error code is 10 and is raised again unchanged otherwise. In
  \<open>MediaInsights._get_insights\<close> the result is \<open>None\<close> exactly when the fetch raised a
  \<open>FacebookRequestError\<close> with subcode 2108006; a \<open>FacebookRequestError\<close> with any
  other subcode is raised again unchanged. An error of another type is not caught by
  either.
\<close>

theorem insight_errors_narrowly_matched:
  "(get_insights item STORY_METRICS = Inl (FacebookRequestError err)
      \<longrightarrow> snd (StoriesInsights_get_insights get_insights item)
            = (if api_error_code err = Some 10 then Inr [] else Inl (FacebookRequestError err)))
   \<and>
   (get_insights item STORY_METRICS = Inl x \<and> \<not> is_FacebookRequestError x
      \<longrightarrow> snd (StoriesInsights_get_insights get_insights item) = Inl x)
   \<and>
   (snd (MediaInsights_get_insights media_get_insights item) = Inr None
      \<longleftrightarrow> (\<exists>err ms. fst (MediaInsights_get_insights media_get_insights item) = [ms]
              \<and> media_get_insights item ms = Inl (FacebookRequestError err)
              \<and> api_error_subcode err = Some 2108006))
   \<and>
   (fst (MediaInsights_get_insights media_get_insights item) = [ms]
    \<and> media_get_insights item ms = Inl (FacebookRequestError err)
    \<and> api_error_subcode err \<noteq> Some 2108006
      \<longrightarrow> snd (MediaInsights_get_insights media_get_insights item) = Inl (FacebookRequestError err))
   \<and>
   (fst (MediaInsights_get_insights media_get_insights item) = [ms]
    \<and> media_get_insights item ms = Inl x \<and> \<not> is_FacebookRequestError x
      \<longrightarrow> snd (MediaInsights_get_insights media_get_insights item) = Inl x)"
proof (rule MediaInsights_get_insights_cases [of media_get_insights item])
  fix sel
  assume sel: "fst (MediaInsights_get_insights media_get_insights item) = [sel]"
    and ok: "\<And>r. media_get_insights item sel = Inr r \<Longrightarrow>
           snd (MediaInsights_get_insights media_get_insights item) = Inr (Some r)"
    and fb: "\<And>e. media_get_insights item sel = Inl (FacebookRequestError e) \<Longrightarrow>
           snd (MediaInsights_get_insights media_get_insights item)
             = (if api_error_subcode e = Some 2108006 then Inr None else Inl (FacebookRequestError e))"
    and other: "\<And>x. media_get_insights item sel = Inl x \<Longrightarrow> \<not> is_FacebookRequestError x \<Longrightarrow>
           snd (MediaInsights_get_insights media_get_insights item) = Inl x"
  show ?thesis
  proof (intro conjI impI)
    assume "get_insights item STORY_METRICS = Inl (FacebookRequestError err)"
    then show "snd (StoriesInsights_get_insights get_insights item)
              = (if api_error_code err = Some 10 then Inr [] else Inl (FacebookRequestError err))"
      by (simp add: StoriesInsights_get_insights_def)
  next
    assume "get_insights item STORY_METRICS = Inl x \<and> \<not> is_FacebookRequestError x"
    then show "snd (StoriesInsights_get_insights get_insights item) = Inl x"
      by (cases x) (simp_all add: StoriesInsights_get_insights_def)
  next
    show "snd (MediaInsights_get_insights media_get_insights item) = Inr None
        \<longleftrightarrow> (\<exists>err ms. fst (MediaInsights_get_insights media_get_insights item) = [ms]
                \<and> media_get_insights item ms = Inl (FacebookRequestError err)
                \<and> api_error_subcode err = Some 2108006)"
    proof
      assume none: "snd (MediaInsights_get_insights media_get_insights item) = Inr None"
      show "\<exists>err ms. fst (MediaInsights_get_insights media_get_insights item) = [ms]
                \<and> media_get_insights item ms = Inl (FacebookRequestError err)
                \<and> api_error_subcode err = Some 2108006"
      proof (cases "media_get_insights item sel")
        case (Inr r)
        with ok none show ?thesis by simp
      next
        case (Inl y)
        show ?thesis
        proof (cases "is_FacebookRequestError y")
          case False
          with other [OF Inl] none show ?thesis by simp
        next
          case True
          then obtain e where y: "y = FacebookRequestError e" by (cases y) simp_all
          with fb [of e] Inl none have "api_error_subcode e = Some 2108006"
            by (simp split: if_splits)
          with sel Inl y show ?thesis by blast
        qed
      qed
    next
      assume "\<exists>err ms. fst (MediaInsights_get_insights media_get_insights item) = [ms]
                \<and> media_get_insights item ms = Inl (FacebookRequestError err)
                \<and> api_error_subcode err = Some 2108006"
      then obtain e where "media_get_insights item sel = Inl (FacebookRequestError e)"
        "api_error_subcode e = Some 2108006" using sel by auto
      with fb [of e] show "snd (MediaInsights_get_insights media_get_insights item) = Inr None" by simp
    qed
  next
    assume "fst (MediaInsights_get_insights media_get_insights item) = [ms]
      \<and> media_get_insights item ms = Inl (FacebookRequestError err)
      \<and> api_error_subcode err \<noteq> Some 2108006"
    with sel have "media_get_insights item sel = Inl (FacebookRequestError err)"
      "api_error_subcode err \<noteq> Some 2108006" by auto
    with fb [of err] show "snd (MediaInsights_get_insights media_get_insights item) = Inl (FacebookRequestError err)"
      by simp
  next
    assume "fst (MediaInsights_get_insights media_get_insights item) = [ms]
      \<and> media_get_insights item ms = Inl x \<and> \<not> is_FacebookRequestError x"
    with sel have "media_get_insights item sel = Inl x" "\<not> is_FacebookRequestError x" by auto
    then show "snd (MediaInsights_get_insights media_get_insights item) = Inl x" by (rule other)
  qed
qed

theorem insight_errors_narrowly_matched_witness:
  "StoriesInsights_get_insights
      (\<lambda>i ms. (Inl (FacebookRequestError \<lparr>api_error_code = Some 10, api_error_subcode = None,
                  api_error_message = ''(#10) Not enough viewers for the media to show insights''\<rparr>)
                :: exn + pyval list))
      [(''id'', PStr ''1'')]
     = ([STORY_METRICS], Inr [])
   \<and> StoriesInsights_get_insights
      (\<lambda>i ms. (Inl (FacebookRequestError \<lparr>api_error_code = Some 100, api_error_subcode = Some 33,
                  api_error_message = ''Unsupported get request''\<rparr>) :: exn + pyval list))
      [(''id'', PStr ''1'')]
     = ([STORY_METRICS], Inl (FacebookRequestError \<lparr>api_error_code = Some 100, api_error_subcode = Some 33,
                  api_error_message = ''Unsupported get request''\<rparr>))
   \<and> StoriesInsights_get_insights (\<lambda>i ms. (Inl (OtherError ''timeout'') :: exn + pyval list))
      [(''id'', PStr ''1'')]
     = ([STORY_METRICS], Inl (OtherError ''timeout''))
   \<and> MediaInsights_get_insights
      (\<lambda>i ms. (Inl (FacebookRequestError \<lparr>api_error_code = Some 100, api_error_subcode = Some 2108006,
                  api_error_message = ''Media posted before business account conversion''\<rparr>)
                :: exn + pyval list))
      [(''id'', PStr ''1'')]
     = ([MEDIA_METRICS], Inr None)
   \<and> MediaInsights_get_insights
      (\<lambda>i ms. (Inl (FacebookRequestError \<lparr>api_error_code = Some 10, api_error_subcode = None,
                  api_error_message = ''(#10) Not enough viewers''\<rparr>) :: exn + pyval list))
      [(''id'', PStr ''1'')]
     = ([MEDIA_METRICS], Inl (FacebookRequestError \<lparr>api_error_code = Some 10, api_error_subcode = None,
                  api_error_message = ''(#10) Not enough viewers''\<rparr>))
   \<and> MediaInsights_get_insights (\<lambda>i ms. (Inl (OtherError ''timeout'') :: exn + pyval list))
      [(''id'', PStr ''1'')]
     = ([MEDIA_METRICS], Inl (OtherError ''timeout''))"
proof -
  let ?item = "[(''id'', PStr ''1'')]"
  let ?e10 = "\<lparr>api_error_code = Some 10, api_error_subcode = None,
                  api_error_message = ''(#10) Not enough viewers for the media to show insights''\<rparr>"
  let ?e100 = "\<lparr>api_error_code = Some 100, api_error_subcode = Some 33,
                  api_error_message = ''Unsupported get request''\<rparr>"
  let ?esub = "\<lparr>api_error_code = Some 100, api_error_subcode = Some 2108006,
                  api_error_message = ''Media posted before business account conversion''\<rparr>"
  let ?e10m = "\<lparr>api_error_code = Some 10, api_error_subcode = None,
                  api_error_message = ''(#10) Not enough viewers''\<rparr>"
  have f1: "fst (StoriesInsights_get_insights g ?item) = [STORY_METRICS]"
    for g :: "pydict \<Rightarrow> string list \<Rightarrow> exn + pyval list"
    by (simp add: StoriesInsights_get_insights_def)
  have f2: "fst (MediaInsights_get_insights g ?item) = [MEDIA_METRICS]"
    for g :: "pydict \<Rightarrow> string list \<Rightarrow> exn + pyval list"
    by (simp add: MediaInsights_get_insights_def dict_get_def Let_def)
  note t = insight_errors_narrowly_matched
  show ?thesis
    using
      t [where item = ?item and get_insights = "\<lambda>i ms. (Inl (FacebookRequestError ?e10) :: exn + pyval list)"
           and err = ?e10 and media_get_insights = "\<lambda>i ms. (Inl (FacebookRequestError ?esub) :: exn + pyval list)"]
      t [where item = ?item and get_insights = "\<lambda>i ms. (Inl (FacebookRequestError ?e100) :: exn + pyval list)"
           and err = ?e100 and media_get_insights = "\<lambda>i ms. (Inl (OtherError ''timeout'') :: exn + pyval list)"
           and x = "OtherError ''timeout''" and ms = MEDIA_METRICS]
      t [where item = ?item and get_insights = "\<lambda>i ms. (Inl (OtherError ''timeout'') :: exn + pyval list)"
           and x = "OtherError ''timeout''" and err = ?e10m and ms = MEDIA_METRICS
           and media_get_insights = "\<lambda>i ms. (Inl (FacebookRequestError ?e10m) :: exn + pyval list)"]
      f1 f2
    by (simp add: prod_eq_iff)
qed

section \<open>Properties of the Square request parameters\<close>

lemma next_page_token_shape:
  "SquareStream_next_page_token response_json = Inr t
   \<Longrightarrow> t = None \<or> (\<exists>c. truthy c \<and> t = Some [(''cursor'', c)])"
  by (auto simp: SquareStream_next_page_token_def Let_def split: pyval.splits if_splits)

lemma request_params_cursor_token:
  "request_params super_params stream_state (Some [(''cursor'', c)]) = Inr None"
  by (simp add: request_params_def Let_def)

lemma request_params_no_token:
  "\<exists>p. request_params super_params stream_state None = Inr (Some p)
       \<and> map_of p ''limit'' = Some (PInt 100)
       \<and> (case map_of stream_state ''created_at'' of
            None \<Rightarrow> map_of p ''begin_time''
                     = map_of (case super_params of None \<Rightarrow> [] | Some q \<Rightarrow> q) ''begin_time''
          | Some v \<Rightarrow> map_of p ''begin_time'' = Some v)"
  by (auto simp: request_params_def Let_def IncrementalSquareStream_cursor_field_def
      items_per_page_limit_def update_conv' split: option.splits)

text \<open>
  C10. The page token of a call is what \<open>SquareStream.next_page_token\<close> returned: \<open>None\<close>
  or the mapping of \<open>cursor\<close> to a truthy cursor. With every token that is not \<open>None\<close>,
  \<open>request_params\<close> returns \<open>None\<close>, the value of \<open>dict.update\<close>, so that \<open>begin_time\<close>,
  \<open>cursor\<close> and \<open>limit\<close> are all absent from what is returned. Only with the token
  \<open>None\<close> does it return a mapping: that mapping holds the limit 100, and as
  \<open>begin_time\<close> the stream state's \<open>created_at\<close> when the state has one (what the
  framework's parameters held otherwise).
\<close>

theorem request_params_page_token:
  "(SquareStream_next_page_token response_json = Inr (Some tok)
      \<longrightarrow> request_params super_params stream_state (Some tok) = Inr None)
   \<and>
   request_params super_params stream_state (Some [(''cursor'', c)]) = Inr None
   \<and>
   (SquareStream_next_page_token response_json = Inr t
    \<and> request_params super_params stream_state t = Inr (Some p)
      \<longrightarrow> t = None)
   \<and>
   (\<exists>p. request_params super_params stream_state None = Inr (Some p)
       \<and> map_of p ''limit'' = Some (PInt 100)
       \<and> (case map_of stream_state ''created_at'' of
            None \<Rightarrow> map_of p ''begin_time''
                     = map_of (case super_params of None \<Rightarrow> [] | Some q \<Rightarrow> q) ''begin_time''
          | Some v \<Rightarrow> map_of p ''begin_time'' = Some v))"
proof (intro conjI impI)
  assume "SquareStream_next_page_token response_json = Inr (Some tok)"
  from next_page_token_shape [OF this] obtain c' where "tok = [(''cursor'', c')]" by auto
  then show "request_params super_params stream_state (Some tok) = Inr None"
    by (simp add: request_params_cursor_token)
next
  show "request_params super_params stream_state (Some [(''cursor'', c)]) = Inr None"
    by (rule request_params_cursor_token)
next
  assume a: "SquareStream_next_page_token response_json = Inr t
    \<and> request_params super_params stream_state t = Inr (Some p)"
  show "t = None"
  proof (rule ccontr)
    assume "t \<noteq> None"
    with a next_page_token_shape [of response_json t] obtain c' where "t = Some [(''cursor'', c')]"
      by auto
    with a show False by (simp add: request_params_cursor_token)
  qed
next
  show "\<exists>p. request_params super_params stream_state None = Inr (Some p)
       \<and> map_of p ''limit'' = Some (PInt 100)
       \<and> (case map_of stream_state ''created_at'' of
            None \<Rightarrow> map_of p ''begin_time''
                     = map_of (case super_params of None \<Rightarrow> [] | Some q \<Rightarrow> q) ''begin_time''
          | Some v \<Rightarrow> map_of p ''begin_time'' = Some v)"
    by (rule request_params_no_token)
qed

theorem request_params_page_token_witness:
  "SquareStream_next_page_token (PDict [(''payments'', PList []), (''cursor'', PStr ''abc'')])
     = Inr (Some [(''cursor'', PStr ''abc'')])
   \<and> request_params (Some []) [(''created_at'', PStr ''2021-06-01T12:00:00.000Z'')]
      (Some [(''cursor'', PStr ''abc'')]) = Inr None
   \<and> SquareStream_next_page_token (PDict [(''payments'', PList [])]) = Inr None
   \<and> request_params (Some []) [(''created_at'', PStr ''2021-06-01T12:00:00.000Z'')] None
      = Inr (Some [(''begin_time'', PStr ''2021-06-01T12:00:00.000Z''), (''limit'', PInt 100)])"
proof -
  have tok: "SquareStream_next_page_token (PDict [(''payments'', PList []), (''cursor'', PStr ''abc'')])
     = Inr (Some [(''cursor'', PStr ''abc'')])"
    by (simp add: SquareStream_next_page_token_def)
  have none: "SquareStream_next_page_token (PDict [(''payments'', PList [])]) = Inr None"
    by (simp add: SquareStream_next_page_token_def)
  have ev: "request_params (Some []) [(''created_at'', PStr ''2021-06-01T12:00:00.000Z'')] None
      = Inr (Some [(''begin_time'', PStr ''2021-06-01T12:00:00.000Z''), (''limit'', PInt 100)])"
    by (simp add: request_params_def IncrementalSquareStream_cursor_field_def items_per_page_limit_def)
  show ?thesis
    using request_params_page_token
        [where response_json = "PDict [(''payments'', PList []), (''cursor'', PStr ''abc'')]"
           and tok = "[(''cursor'', PStr ''abc'')]" and super_params = "Some []"
           and stream_state = "[(''created_at'', PStr ''2021-06-01T12:00:00.000Z'')]"]
      request_params_page_token
        [where response_json = "PDict [(''payments'', PList [])]" and t = None
           and super_params = "Some []"
           and stream_state = "[(''created_at'', PStr ''2021-06-01T12:00:00.000Z'')]"
           and p = "[(''begin_time'', PStr ''2021-06-01T12:00:00.000Z''), (''limit'', PInt 100)]"]
      tok none ev
    by simp
qed

end
